theory Spec2Isabelle
  imports Main "HOL-Library.Word"
begin

section \<open>Paths and the filesystem\<close>

text \<open>
  \<^verbatim>\<open>std::filesystem::path\<close> on one drive.  A path is either rooted (it has a
  root directory, \<^verbatim>\<open>C:\a\b\<close>) or relative (\<^verbatim>\<open>a\b\<close>); in both cases it is the
  sequence of its file names, which may contain \<^verbatim>\<open>.\<close> and \<^verbatim>\<open>..\<close> as the source
  appends them.  \<open>Relative []\<close> is the empty path.
\<close>

datatype path = Rooted "string list" | Relative "string list"

text \<open>\<^verbatim>\<open>path::root_path()\<close>: the root of a rooted path, the empty path otherwise.\<close>

fun root_path :: "path \<Rightarrow> path" where
  "root_path (Rooted cs) = Rooted []"
| "root_path (Relative cs) = Relative []"

text \<open>\<^verbatim>\<open>operator/\<close> with a single relative file name on the right.\<close>

fun append_path :: "path \<Rightarrow> string \<Rightarrow> path" where
  "append_path (Rooted cs) c = Rooted (cs @ [c])"
| "append_path (Relative cs) c = Relative (cs @ [c])"

text \<open>
  The project is a Visual Studio project; there \<^verbatim>\<open>std::filesystem::absolute\<close>
  is \<^verbatim>\<open>GetFullPathNameW\<close>: a relative path is put under the current directory, and
  \<^verbatim>\<open>.\<close> and \<^verbatim>\<open>..\<close> are resolved on the text of the path, from left to right,
  \<^verbatim>\<open>..\<close> at the root staying at the root.
\<close>

fun full_path_step :: "string list \<Rightarrow> string \<Rightarrow> string list" where
  "full_path_step acc c =
     (if c = ''.'' then acc else if c = ''..'' then butlast acc else acc @ [c])"

definition full_path_name :: "string list \<Rightarrow> string list" where
  "full_path_name cs = foldl full_path_step [] cs"

text \<open>
  What the program reads from the filesystem: the current directory (a rooted path,
  given by its file names), the directory of the executable as \<^verbatim>\<open>SDL_GetBasePath\<close>
  reports it, and the set of existing directories, each given by the file names
  below the root.
\<close>

record filesystem =
  current_directory :: "string list"
  base_directory :: "string list"
  directories :: "string list set"

fun absolute :: "filesystem \<Rightarrow> path \<Rightarrow> path" where
  "absolute fs (Rooted cs) = Rooted (full_path_name cs)"
| "absolute fs (Relative cs) = Rooted (full_path_name (current_directory fs @ cs))"

fun file_names :: "path \<Rightarrow> string list" where
  "file_names (Rooted cs) = cs"
| "file_names (Relative cs) = cs"

definition is_directory :: "filesystem \<Rightarrow> path \<Rightarrow> bool" where
  "is_directory fs p = (file_names (absolute fs p) \<in> directories fs)"

section \<open>Asset root discovery\<close>

text \<open>
  The \<^verbatim>\<open>do ... while\<close> loop of \<^verbatim>\<open>try_get_asset_path\<close>, entered with the current
  value of \<^verbatim>\<open>p\<close>.  The result \<open>None\<close> says that the loop does not return;
  \<open>Some None\<close> is the empty \<^verbatim>\<open>std::optional\<close>.
\<close>

partial_function (option) walk_up :: "filesystem \<Rightarrow> path \<Rightarrow> path \<Rightarrow> path option option" where
  "walk_up fs root p =
     (let assets_folder = absolute fs (append_path p ''assets'') in
      if is_directory fs assets_folder then Some (Some assets_folder)
      else
        (let p' = absolute fs (append_path p ''..'') in
         if absolute fs p' \<noteq> root then walk_up fs root p' else Some None))"

declare walk_up.simps [code]

definition try_get_asset_path :: "filesystem \<Rightarrow> path \<Rightarrow> path option option" where
  "try_get_asset_path fs starting_directory =
     walk_up fs (root_path starting_directory) starting_directory"

text \<open>
  Names for the statements about the search.  A list of file names is plain when no
  \<^verbatim>\<open>.\<close> or \<^verbatim>\<open>..\<close> is left in it; \<open>ancestor cs k\<close> is the directory reached from
  \<open>cs\<close> by \<open>k\<close> parent traversals; a directory has assets when its child
  \<^verbatim>\<open>assets\<close> is an existing directory.
\<close>

definition plain :: "string list \<Rightarrow> bool" where
  "plain cs = (''.'' \<notin> set cs \<and> ''..'' \<notin> set cs)"

definition ancestor :: "string list \<Rightarrow> nat \<Rightarrow> string list" where
  "ancestor cs k = take (length cs - k) cs"

definition has_assets :: "filesystem \<Rightarrow> string list \<Rightarrow> bool" where
  "has_assets fs a = (a @ [''assets''] \<in> directories fs)"

section \<open>The outside world\<close>

text \<open>An owning pointer handed out by SDL or OpenAL: null, or a live handle.\<close>

datatype ptr = nullptr | Handle

text \<open>\<^verbatim>\<open>SDL_AudioSpec\<close>, the fields the program reads.\<close>

record SDL_AudioSpec =
  freq :: int
  format :: "16 word"
  channels :: "8 word"

text \<open>
  Everything the libraries answer: the filesystem, the results of the calls that create
  things, and the decoders, which answer by path.  \<open>stbi_load\<close> gives the width and
  height of the decoded image or nothing; \<open>SDL_LoadWAV\<close> gives the spec and the length;
  \<open>stb_vorbis_decode_filename\<close> gives samples, channels and sample rate, samples being
  \<open>-1\<close> on failure.
\<close>

record env =
  files :: filesystem
  sdl_init :: int
  sdl_create_window :: ptr
  sdl_gl_create_context :: ptr
  glew_ok :: bool
  sdl_window_size :: "int \<times> int"
  alc_open_device :: ptr
  alc_create_context :: ptr
  al_is_extension_present :: "string \<Rightarrow> bool"
  al_get_enum_value :: "string \<Rightarrow> int"
  stbi_load :: "path \<Rightarrow> (int \<times> int) option"
  gl_gen_texture :: "32 word"
  al_gen_buffers :: "32 word list"
  al_gen_sources :: "32 word list"
  sdl_load_wav :: "path \<Rightarrow> (SDL_AudioSpec \<times> 32 word) option"
  stb_vorbis_decode_filename :: "path \<Rightarrow> int \<times> int \<times> int"

text \<open>
  The calls to the libraries, in the order the program makes them.  A call that can
  fail carries its result.  Calls that only set drawing state (\<^verbatim>\<open>hint_gl\<close>,
  \<^verbatim>\<open>glViewport\<close>, \<^verbatim>\<open>glClearColor\<close>, \<^verbatim>\<open>glClear\<close>, \<^verbatim>\<open>glBindTexture\<close>,
  \<^verbatim>\<open>glTexParameteri\<close>, \<^verbatim>\<open>SDL_GL_SetSwapInterval\<close>, the frame calls of the UI
  backends) and the printing to \<^verbatim>\<open>std::cerr\<close> are left out: they create and destroy
  nothing and the program takes no decision on them.
\<close>

datatype text_arg = Int_arg int | String_arg string

datatype call =
    SDL_Init int
  | SDL_CreateWindow ptr
  | SDL_GL_CreateContext ptr
  | SDL_GL_MakeCurrent
  | GlewInit bool
  | SDL_GetWindowSize
  | ImGui_CreateContext
  | ImGui_ImplSDL2_InitForOpenGL
  | ImGui_ImplOpenGL3_Init
  | AlcOpenDevice ptr
  | AlcCreateContext ptr
  | AlcMakeContextCurrent ptr
  | Current_path
  | SDL_GetBasePath
  | SDL_free
  | Stbi_load path bool
  | GlGenTextures "32 word"
  | GlTexImage2D int int
  | Stbi_image_free
  | AlGenBuffers
  | AlGenSources
  | SDL_LoadWAV path bool
  | AlBufferData nat int "32 word" int
  | SDL_FreeWAV
  | AlSourcei nat
  | Stb_vorbis_decode_filename path bool
  | Free
  | GlDeleteTextures "32 word"
  | AlDeleteSources
  | AlDeleteBuffers
  | AlcDestroyContext ptr
  | AlcCloseDevice ptr
  | ImGui_ImplOpenGL3_Shutdown
  | ImGui_ImplSDL2_Shutdown
  | ImGui_DestroyContext
  | SDL_GL_DeleteContext ptr
  | SDL_DestroyWindow ptr
  | SDL_Quit
  | ImGui_Begin string
  | ImGui_Text string "text_arg list"
  | ImGui_Image "32 word" int int
  | ImGui_Button string bool
  | ImGui_SameLine
  | ImGui_End
  | AlSourcePlay nat
  | SDL_GL_SwapWindow

text \<open>The exceptions of the program, one for each \<^verbatim>\<open>throw\<close> of the source.\<close>

datatype exn =
    Title_empty
  | SDL_Init_failed
  | Create_window_failed
  | Create_context_failed
  | Glew_init_failed
  | Assets_folder_not_found
  | Load_WAV_failed path
  | Load_OGG_failed path

section \<open>Program state\<close>

record image_slot =
  handle :: "32 word"
  width :: int
  height :: int
  loaded :: bool

record Demo =
  example_image :: image_slot
  alBufferHandles :: "32 word list"
  alSourceHandles :: "32 word list"

record Application =
  demo :: Demo
  ptr_window :: ptr
  gl_context :: ptr
  al_device :: ptr
  al_context :: ptr
  is_done :: bool

text \<open>
  The variables that outlive a call: the two window sizes, and the function-local
  static \<^verbatim>\<open>assets_folder\<close> of \<^verbatim>\<open>get_base_path\<close>, \<open>None\<close> until its initialiser
  has returned.
\<close>

record globals =
  gWindowWidth :: int
  gWindowHeight :: int
  assets_folder :: "path option"

definition initial_globals :: globals where
  "initial_globals = \<lparr>gWindowWidth = 640, gWindowHeight = 480, assets_folder = None\<rparr>"

definition initial_Demo :: Demo where
  "initial_Demo =
     \<lparr>example_image = \<lparr>handle = 0, width = 0, height = 0, loaded = False\<rparr>,
      alBufferHandles = [0, 0], alSourceHandles = [0, 0]\<rparr>"

definition initial_Application :: Application where
  "initial_Application =
     \<lparr>demo = initial_Demo, ptr_window = nullptr, gl_context = nullptr,
      al_device = nullptr, al_context = nullptr, is_done = False\<rparr>"

section \<open>Resolving the asset root\<close>

text \<open>
  \<^verbatim>\<open>get_base_path\<close>.  The static is initialised by the first call whose
  initialiser returns; an initialiser that throws leaves it uninitialised.  The result
  is \<open>None\<close> when a search does not return.
\<close>

definition get_base_path ::
    "env \<Rightarrow> globals \<Rightarrow> ((exn + path) \<times> globals \<times> call list) option" where
  "get_base_path e g =
     (case assets_folder g of
        Some cached \<Rightarrow> Some (Inr cached, g, [])
      | None \<Rightarrow>
          (case try_get_asset_path (files e) (Rooted (current_directory (files e))) of
             None \<Rightarrow> None
           | Some (Some result) \<Rightarrow>
               Some (Inr result, g\<lparr>assets_folder := Some result\<rparr>, [Current_path])
           | Some None \<Rightarrow>
               (case try_get_asset_path (files e) (Rooted (base_directory (files e))) of
                  None \<Rightarrow> None
                | Some (Some result) \<Rightarrow>
                    Some (Inr result, g\<lparr>assets_folder := Some result\<rparr>,
                          [Current_path, SDL_GetBasePath, SDL_free])
                | Some None \<Rightarrow>
                    Some (Inl Assets_folder_not_found, g,
                          [Current_path, SDL_GetBasePath, SDL_free]))))"

section \<open>Loading the assets\<close>

text \<open>
  The constants of \<^verbatim>\<open>SDL_audio.h\<close> (on a little-endian machine, where
  \<^verbatim>\<open>AUDIO_S16SYS\<close> is \<^verbatim>\<open>AUDIO_S16LSB\<close>) and of \<^verbatim>\<open>al.h\<close>.
\<close>

definition AUDIO_U8 :: "16 word" where "AUDIO_U8 = 0x0008"
definition AUDIO_S16SYS :: "16 word" where "AUDIO_S16SYS = 0x8010"
definition AUDIO_F32SYS :: "16 word" where "AUDIO_F32SYS = 0x8120"

definition AL_NONE :: int where "AL_NONE = 0"
definition AL_FORMAT_MONO8 :: int where "AL_FORMAT_MONO8 = 0x1100"
definition AL_FORMAT_MONO16 :: int where "AL_FORMAT_MONO16 = 0x1101"
definition AL_FORMAT_STEREO8 :: int where "AL_FORMAT_STEREO8 = 0x1102"
definition AL_FORMAT_STEREO16 :: int where "AL_FORMAT_STEREO16 = 0x1103"

definition get_openal_format :: "env \<Rightarrow> SDL_AudioSpec \<Rightarrow> int" where
  "get_openal_format e spec =
     (if channels spec = 1 \<and> format spec = AUDIO_U8 then AL_FORMAT_MONO8
      else if channels spec = 1 \<and> format spec = AUDIO_S16SYS then AL_FORMAT_MONO16
      else if channels spec = 2 \<and> format spec = AUDIO_U8 then AL_FORMAT_STEREO8
      else if channels spec = 2 \<and> format spec = AUDIO_S16SYS then AL_FORMAT_STEREO16
      else if channels spec = 1 \<and> format spec = AUDIO_F32SYS then
        (if al_is_extension_present e ''AL_EXT_FLOAT32''
         then al_get_enum_value e ''AL_FORMAT_MONO_FLOAT32'' else AL_NONE)
      else if channels spec = 2 \<and> format spec = AUDIO_F32SYS then
        (if al_is_extension_present e ''AL_EXT_FLOAT32''
         then al_get_enum_value e ''AL_FORMAT_STEREO_FLOAT32'' else AL_NONE)
      else AL_NONE)"

text \<open>
  \<^verbatim>\<open>LoadTextureFromFile\<close>: the returned flag, the three output parameters (left as
  they were on failure) and the calls.
\<close>

definition LoadTextureFromFile ::
    "env \<Rightarrow> path \<Rightarrow> 32 word \<times> int \<times> int \<Rightarrow> bool \<times> (32 word \<times> int \<times> int) \<times> call list" where
  "LoadTextureFromFile e filename out =
     (case stbi_load e filename of
        None \<Rightarrow> (False, out, [Stbi_load filename False])
      | Some (image_width, image_height) \<Rightarrow>
          (True, (gl_gen_texture e, image_width, image_height),
           [Stbi_load filename True, GlGenTextures (gl_gen_texture e),
            GlTexImage2D image_width image_height, Stbi_image_free]))"

text \<open>
  \<^verbatim>\<open>Demo::Setup\<close>, in three parts, the later ones first: the OGG clip, the WAV clip
  followed by the OGG clip, and the whole function, which begins with the image.
\<close>

definition setup_ogg :: "env \<Rightarrow> globals \<Rightarrow> ((exn + unit) \<times> globals \<times> call list) option" where
  "setup_ogg e g =
     (case get_base_path e g of
        None \<Rightarrow> None
      | Some (Inl x, g', t) \<Rightarrow> Some (Inl x, g', t)
      | Some (Inr base, g', t) \<Rightarrow>
          (let stereo_path = append_path (append_path base ''audio'') ''duck_vocalizations.ogg''
           in case stb_vorbis_decode_filename e stereo_path of
                (samples, n_channels, sample_rate) \<Rightarrow>
                  if samples = - 1
                  then Some (Inl (Load_OGG_failed stereo_path), g',
                             t @ [Stb_vorbis_decode_filename stereo_path False])
                  else Some (Inr (), g',
                             t @
                             [Stb_vorbis_decode_filename stereo_path True,
                              AlBufferData 1
                                (if n_channels = 1 then AL_FORMAT_MONO16 else AL_FORMAT_STEREO16)
                                (word_of_int (samples * n_channels * 2)) sample_rate,
                              Free, AlSourcei 1])))"

definition setup_wav :: "env \<Rightarrow> globals \<Rightarrow> ((exn + unit) \<times> globals \<times> call list) option" where
  "setup_wav e g =
     (case get_base_path e g of
        None \<Rightarrow> None
      | Some (Inl x, g', t) \<Rightarrow> Some (Inl x, g', t)
      | Some (Inr base, g', t) \<Rightarrow>
          (let e_path =
                 append_path (append_path base ''audio'') ''duck-quacking-loudly-three-times.wav''
           in case sdl_load_wav e e_path of
                None \<Rightarrow> Some (Inl (Load_WAV_failed e_path), g', t @ [SDL_LoadWAV e_path False])
              | Some (wavSpec, wavLength) \<Rightarrow>
                  (case setup_ogg e g' of
                     None \<Rightarrow> None
                   | Some (r, g'', t') \<Rightarrow>
                       Some (r, g'',
                             t @
                             [SDL_LoadWAV e_path True,
                              AlBufferData 0 (get_openal_format e wavSpec) wavLength
                                (freq wavSpec),
                              SDL_FreeWAV, AlSourcei 0] @ t'))))"

definition Setup :: "env \<Rightarrow> globals \<Rightarrow> Demo \<Rightarrow> ((exn + Demo) \<times> globals \<times> call list) option" where
  "Setup e g d =
     (case get_base_path e g of
        None \<Rightarrow> None
      | Some (Inl x, g', t) \<Rightarrow> Some (Inl x, g', t)
      | Some (Inr base, g', t) \<Rightarrow>
          (let img = example_image d
           in case LoadTextureFromFile e (append_path (append_path base ''images'') ''duck.png'')
                     (handle img, width img, height img) of
                (ok, (out_texture, out_width, out_height), t') \<Rightarrow>
                  (case setup_wav e g' of
                     None \<Rightarrow> None
                   | Some (Inl x, g'', t'') \<Rightarrow>
                       Some (Inl x, g'', t @ t' @ [AlGenBuffers, AlGenSources] @ t'')
                   | Some (Inr u, g'', t'') \<Rightarrow>
                       Some (Inr (d\<lparr>example_image :=
                                      \<lparr>handle = out_texture, width = out_width,
                                       height = out_height, loaded = ok\<rparr>,
                                    alBufferHandles := al_gen_buffers e,
                                    alSourceHandles := al_gen_sources e\<rparr>),
                             g'', t @ t' @ [AlGenBuffers, AlGenSources] @ t''))))"

definition Shutdown :: "Demo \<Rightarrow> call list" where
  "Shutdown d =
     (if loaded (example_image d) then [GlDeleteTextures (handle (example_image d))] else [])
     @ [AlDeleteSources, AlDeleteBuffers]"

text \<open>
  The events the program distinguishes, and what one frame brings: the pending events
  and, for each of the two buttons, whether it was pressed.
\<close>

datatype sdl_event =
    SDL_WINDOWEVENT_CLOSE
  | SDL_WINDOWEVENT_RESIZED int int
  | SDL_WINDOWEVENT_SIZE_CHANGED int int
  | SDL_QUIT
  | SDL_other_event

record frame =
  events :: "sdl_event list"
  mono_pressed :: bool
  stereo_pressed :: bool

definition ImGuiDraw :: "Demo \<Rightarrow> frame \<Rightarrow> call list" where
  "ImGuiDraw d f =
     [ImGui_Begin ''OpenGL Texture Test'']
     @ (if loaded (example_image d)
        then [ImGui_Text ''handle = %d'' [Int_arg (sint (handle (example_image d)))],
              ImGui_Text ''size = %d x %d''
                [Int_arg (width (example_image d)), Int_arg (height (example_image d))],
              ImGui_Image (handle (example_image d)) (width (example_image d))
                (height (example_image d))]
        else [ImGui_Text ''%s'' [String_arg ''Failed to load texture image...'']])
     @ [ImGui_End, ImGui_Begin ''Audio Test'', ImGui_Button ''Play Mono SFX'' (mono_pressed f)]
     @ (if mono_pressed f then [AlSourcePlay 0] else [])
     @ [ImGui_SameLine, ImGui_Button ''Play Stereo SFX'' (stereo_pressed f)]
     @ (if stereo_pressed f then [AlSourcePlay 1] else [])
     @ [ImGui_End]"

section \<open>The application\<close>

definition setupSDLWindow :: "env \<Rightarrow> Application \<Rightarrow> (exn + Application) \<times> call list" where
  "setupSDLWindow e app =
     (if sdl_init e < 0 then (Inl SDL_Init_failed, [SDL_Init (sdl_init e)])
      else if sdl_create_window e = nullptr
      then (Inl Create_window_failed, [SDL_Init (sdl_init e), SDL_CreateWindow nullptr])
      else (Inr (app\<lparr>ptr_window := sdl_create_window e\<rparr>),
            [SDL_Init (sdl_init e), SDL_CreateWindow (sdl_create_window e)]))"

definition setupOpenGL :: "env \<Rightarrow> Application \<Rightarrow> (exn + Application) \<times> call list" where
  "setupOpenGL e app =
     (if sdl_gl_create_context e = nullptr
      then (Inl Create_context_failed, [SDL_GL_CreateContext nullptr])
      else if \<not> glew_ok e
      then (Inl Glew_init_failed,
            [SDL_GL_CreateContext (sdl_gl_create_context e), SDL_GL_MakeCurrent, GlewInit False])
      else (Inr (app\<lparr>gl_context := sdl_gl_create_context e\<rparr>),
            [SDL_GL_CreateContext (sdl_gl_create_context e), SDL_GL_MakeCurrent, GlewInit True]))"

definition setupImGui :: "call list" where
  "setupImGui = [ImGui_CreateContext, ImGui_ImplSDL2_InitForOpenGL, ImGui_ImplOpenGL3_Init]"

text \<open>
  \<^verbatim>\<open>Application::Application\<close>.  The title is \<open>None\<close> for a null pointer.  An
  exception abandons the object under construction; its destructor does not run.
\<close>

definition Application_ctor ::
    "env \<Rightarrow> string option \<Rightarrow> globals \<Rightarrow> ((exn + Application) \<times> globals \<times> call list) option" where
  "Application_ctor e title g =
     (if title = None \<or> title = Some [] then Some (Inl Title_empty, g, [])
      else
        (case setupSDLWindow e initial_Application of
           (Inl x, t1) \<Rightarrow> Some (Inl x, g, t1)
         | (Inr app1, t1) \<Rightarrow>
             (case setupOpenGL e app1 of
                (Inl x, t2) \<Rightarrow> Some (Inl x, g, t1 @ t2)
              | (Inr app2, t2) \<Rightarrow>
                  (let g1 = g\<lparr>gWindowWidth := fst (sdl_window_size e),
                              gWindowHeight := snd (sdl_window_size e)\<rparr>;
                       app3 = app2\<lparr>al_device := alc_open_device e\<rparr>;
                       app4 = app3\<lparr>al_context := alc_create_context e\<rparr>;
                       t3 = t1 @ t2 @ [SDL_GetWindowSize] @ setupImGui
                            @ [AlcOpenDevice (al_device app3), AlcCreateContext (al_context app4),
                               AlcMakeContextCurrent (al_context app4)]
                   in case Setup e g1 (demo app4) of
                        None \<Rightarrow> None
                      | Some (Inl x, g2, t4) \<Rightarrow> Some (Inl x, g2, t3 @ t4)
                      | Some (Inr d, g2, t4) \<Rightarrow> Some (Inr (app4\<lparr>demo := d\<rparr>), g2, t3 @ t4)))))"

definition Application_dtor :: "Application \<Rightarrow> call list" where
  "Application_dtor app =
     Shutdown (demo app)
     @ [AlcMakeContextCurrent nullptr, AlcDestroyContext (al_context app),
        AlcCloseDevice (al_device app), ImGui_ImplOpenGL3_Shutdown, ImGui_ImplSDL2_Shutdown,
        ImGui_DestroyContext, SDL_GL_DeleteContext (gl_context app),
        SDL_DestroyWindow (ptr_window app), SDL_Quit]"

fun handle_event :: "Application \<times> globals \<Rightarrow> sdl_event \<Rightarrow> Application \<times> globals" where
  "handle_event (app, g) SDL_WINDOWEVENT_CLOSE = (app\<lparr>is_done := True\<rparr>, g)"
| "handle_event (app, g) (SDL_WINDOWEVENT_RESIZED w h) =
     (app, g\<lparr>gWindowWidth := w, gWindowHeight := h\<rparr>)"
| "handle_event (app, g) (SDL_WINDOWEVENT_SIZE_CHANGED w h) =
     (app, g\<lparr>gWindowWidth := w, gWindowHeight := h\<rparr>)"
| "handle_event (app, g) SDL_QUIT = (app\<lparr>is_done := True\<rparr>, g)"
| "handle_event (app, g) SDL_other_event = (app, g)"

definition updateWindowEvents :: "sdl_event list \<Rightarrow> Application \<times> globals \<Rightarrow> Application \<times> globals" where
  "updateWindowEvents evs st = foldl handle_event st evs"

definition Update :: "frame \<Rightarrow> Application \<times> globals \<Rightarrow> (Application \<times> globals) \<times> call list" where
  "Update f st =
     (let st' = updateWindowEvents (events f) st
      in (st', ImGuiDraw (demo (fst st')) f @ [SDL_GL_MakeCurrent, SDL_GL_SwapWindow]))"

text \<open>
  The loop of \<^verbatim>\<open>main\<close> over the frames the outside world delivers, frame \<open>n\<close> next;
  \<open>None\<close> when the window is never closed.
\<close>

partial_function (option) main_loop ::
    "(nat \<Rightarrow> frame) \<Rightarrow> nat \<Rightarrow> Application \<times> globals \<Rightarrow> call list
       \<Rightarrow> ((Application \<times> globals) \<times> call list) option" where
  "main_loop frames n st t =
     (if is_done (fst st) then Some (st, t)
      else main_loop frames (Suc n) (fst (Update (frames n) st)) (t @ snd (Update (frames n) st)))"

declare main_loop.simps [code]

text \<open>\<^verbatim>\<open>main\<close>: the exit status and all the calls made.\<close>

definition main :: "env \<Rightarrow> (nat \<Rightarrow> frame) \<Rightarrow> (int \<times> call list) option" where
  "main e frames =
     (case Application_ctor e (Some ''Programming Fun App'') initial_globals of
        None \<Rightarrow> None
      | Some (Inl x, g, t) \<Rightarrow> Some (- 1, t)
      | Some (Inr application, g, t) \<Rightarrow>
          (case main_loop frames 0 (application, g) t of
             None \<Rightarrow> None
           | Some ((application', g'), t') \<Rightarrow> Some (0, t' @ Application_dtor application')))"

section \<open>What is acquired and what is released\<close>

datatype resource =
    SDL_library | Window | GL_context
  | ImGui_context | ImGui_SDL2_backend | ImGui_OpenGL3_backend
  | AL_device | AL_context
  | Texture | AL_buffers | AL_sources

fun acquires :: "call \<Rightarrow> resource option" where
  "acquires (SDL_Init r) = (if r < 0 then None else Some SDL_library)"
| "acquires (SDL_CreateWindow p) = (if p = nullptr then None else Some Window)"
| "acquires (SDL_GL_CreateContext p) = (if p = nullptr then None else Some GL_context)"
| "acquires ImGui_CreateContext = Some ImGui_context"
| "acquires ImGui_ImplSDL2_InitForOpenGL = Some ImGui_SDL2_backend"
| "acquires ImGui_ImplOpenGL3_Init = Some ImGui_OpenGL3_backend"
| "acquires (AlcOpenDevice p) = (if p = nullptr then None else Some AL_device)"
| "acquires (AlcCreateContext p) = (if p = nullptr then None else Some AL_context)"
| "acquires (GlGenTextures h) = Some Texture"
| "acquires AlGenBuffers = Some AL_buffers"
| "acquires AlGenSources = Some AL_sources"
| "acquires _ = None"

fun releases :: "call \<Rightarrow> resource option" where
  "releases (GlDeleteTextures h) = Some Texture"
| "releases AlDeleteSources = Some AL_sources"
| "releases AlDeleteBuffers = Some AL_buffers"
| "releases (AlcDestroyContext p) = (if p = nullptr then None else Some AL_context)"
| "releases (AlcCloseDevice p) = (if p = nullptr then None else Some AL_device)"
| "releases ImGui_ImplOpenGL3_Shutdown = Some ImGui_OpenGL3_backend"
| "releases ImGui_ImplSDL2_Shutdown = Some ImGui_SDL2_backend"
| "releases ImGui_DestroyContext = Some ImGui_context"
| "releases (SDL_GL_DeleteContext p) = (if p = nullptr then None else Some GL_context)"
| "releases (SDL_DestroyWindow p) = (if p = nullptr then None else Some Window)"
| "releases SDL_Quit = Some SDL_library"
| "releases _ = None"

definition acquired :: "call list \<Rightarrow> resource list" where
  "acquired t = List.map_filter acquires t"

definition released :: "call list \<Rightarrow> resource list" where
  "released t = List.map_filter releases t"

text \<open>The six subsystems of the specification, and the one each resource belongs to.\<close>

datatype subsystem =
    Window_subsystem | Graphics_context | Ui_context | Audio_device | Audio_context
  | Loaded_assets

fun subsystem_of :: "resource \<Rightarrow> subsystem" where
  "subsystem_of SDL_library = Window_subsystem"
| "subsystem_of Window = Window_subsystem"
| "subsystem_of GL_context = Graphics_context"
| "subsystem_of ImGui_context = Ui_context"
| "subsystem_of ImGui_SDL2_backend = Ui_context"
| "subsystem_of ImGui_OpenGL3_backend = Ui_context"
| "subsystem_of AL_device = Audio_device"
| "subsystem_of AL_context = Audio_context"
| "subsystem_of Texture = Loaded_assets"
| "subsystem_of AL_buffers = Loaded_assets"
| "subsystem_of AL_sources = Loaded_assets"

definition release_order :: "call list \<Rightarrow> subsystem list" where
  "release_order t = remdups_adj (map subsystem_of (released t))"

definition acquire_order :: "call list \<Rightarrow> subsystem list" where
  "acquire_order t = remdups_adj (map subsystem_of (acquired t))"

section \<open>Example worlds\<close>

text \<open>
  A checkout \<^verbatim>\<open>proj\<close> with its \<^verbatim>\<open>assets\<close> folder, built in \<^verbatim>\<open>proj\build\<close>, the
  program started from the build directory.
\<close>

definition example_files :: filesystem where
  "example_files =
     \<lparr>current_directory = [''proj'', ''build''],
      base_directory = [''proj'', ''build'', ''x64''],
      directories = {[], [''proj''], [''proj'', ''assets''], [''proj'', ''build''],
                     [''proj'', ''build'', ''x64'']}\<rparr>"

text \<open>The only \<^verbatim>\<open>assets\<close> folder lies directly under the root.\<close>

definition root_assets_files :: filesystem where
  "root_assets_files =
     \<lparr>current_directory = [''a''], base_directory = [''a''],
      directories = {[], [''a''], [''assets'']}\<rparr>"

text \<open>No \<^verbatim>\<open>assets\<close> folder anywhere.\<close>

definition no_assets_files :: filesystem where
  "no_assets_files =
     \<lparr>current_directory = [''proj''], base_directory = [''proj'', ''build''],
      directories = {[], [''proj''], [''proj'', ''build'']}\<rparr>"

text \<open>The \<^verbatim>\<open>assets\<close> folder is found from the directory of the executable only.\<close>

definition exe_only_files :: filesystem where
  "exe_only_files =
     \<lparr>current_directory = [''home''], base_directory = [''proj'', ''build''],
      directories = {[], [''home''], [''proj''], [''proj'', ''assets''],
                     [''proj'', ''build'']}\<rparr>"

definition example_image_path :: path where
  "example_image_path = Rooted [''proj'', ''assets'', ''images'', ''duck.png'']"

definition example_wav_path :: path where
  "example_wav_path =
     Rooted [''proj'', ''assets'', ''audio'', ''duck-quacking-loudly-three-times.wav'']"

definition example_ogg_path :: path where
  "example_ogg_path = Rooted [''proj'', ''assets'', ''audio'', ''duck_vocalizations.ogg'']"

text \<open>Every library call succeeds and the three asset files decode.\<close>

definition example_env :: env where
  "example_env =
     \<lparr>files = example_files, sdl_init = 0, sdl_create_window = Handle,
      sdl_gl_create_context = Handle, glew_ok = True, sdl_window_size = (640, 480),
      alc_open_device = Handle, alc_create_context = Handle,
      al_is_extension_present = (\<lambda>name. False), al_get_enum_value = (\<lambda>name. 0),
      stbi_load = (\<lambda>p. if p = example_image_path then Some (64, 48) else None),
      gl_gen_texture = 1, al_gen_buffers = [1, 2], al_gen_sources = [1, 2],
      sdl_load_wav =
        (\<lambda>p. if p = example_wav_path
             then Some (\<lparr>freq = 44100, format = AUDIO_S16SYS, channels = 1\<rparr>, 1000)
             else None),
      stb_vorbis_decode_filename =
        (\<lambda>p. if p = example_ogg_path then (500, 2, 44100) else (- 1, 0, 0))\<rparr>"

text \<open>The window is closed in the first frame.\<close>

definition quit_frame :: frame where
  "quit_frame = \<lparr>events = [SDL_QUIT], mono_pressed = False, stereo_pressed = False\<rparr>"

definition quit_frames :: "nat \<Rightarrow> frame" where
  "quit_frames n = quit_frame"

text \<open>The same program with one library answer changed.\<close>

definition wav_missing_env :: env where
  "wav_missing_env = example_env\<lparr>sdl_load_wav := (\<lambda>p. None)\<rparr>"

definition ogg_missing_env :: env where
  "ogg_missing_env = example_env\<lparr>stb_vorbis_decode_filename := (\<lambda>p. (- 1, 0, 0))\<rparr>"

definition surround_spec :: SDL_AudioSpec where
  "surround_spec = \<lparr>freq = 44100, format = AUDIO_U8, channels = 6\<rparr>"

definition surround_env :: env where
  "surround_env =
     example_env\<lparr>sdl_load_wav :=
       (\<lambda>p. if p = example_wav_path then Some (surround_spec, 1000) else None)\<rparr>"

section \<open>Notions used in the statements\<close>

text \<open>Two application objects own the same things.\<close>

definition same_resources :: "Application \<Rightarrow> Application \<Rightarrow> bool" where
  "same_resources a b =
     (demo a = demo b \<and> ptr_window a = ptr_window b \<and> gl_context a = gl_context b
      \<and> al_device a = al_device b \<and> al_context a = al_context b)"

text \<open>Mono or stereo, with 8-bit unsigned or 16-bit signed samples.\<close>

definition standard_combination :: "SDL_AudioSpec \<Rightarrow> bool" where
  "standard_combination spec =
     ((channels spec = 1 \<or> channels spec = 2)
      \<and> (format spec = AUDIO_U8 \<or> format spec = AUDIO_S16SYS))"

section \<open>Paths made absolute\<close>

lemma full_path_name_snoc:
  "full_path_name (cs @ [c]) = full_path_step (full_path_name cs) c"
  by (simp add: full_path_name_def)

lemma plain_butlast: "plain cs \<Longrightarrow> plain (butlast cs)"
  by (auto simp: plain_def dest: in_set_butlastD)

lemma plain_full_path_name: "plain (full_path_name cs)"
proof (induction cs rule: rev_induct)
  case Nil
  show ?case by (simp add: full_path_name_def plain_def)
next
  case (snoc c cs)
  then show ?case
    using plain_butlast [of "full_path_name cs"]
    by (auto simp: full_path_name_snoc plain_def)
qed

lemma full_path_name_plain: "plain cs \<Longrightarrow> full_path_name cs = cs"
proof (induction cs rule: rev_induct)
  case Nil
  show ?case by (simp add: full_path_name_def)
next
  case (snoc c cs)
  then show ?case by (auto simp: full_path_name_snoc plain_def)
qed

lemma absolute_append:
  "absolute fs (append_path p c) = Rooted (full_path_step (file_names (absolute fs p)) c)"
proof (cases p)
  case (Rooted cs)
  then show ?thesis by (simp add: full_path_name_snoc)
next
  case (Relative cs)
  have "full_path_name (current_directory fs @ cs @ [c])
      = full_path_step (full_path_name (current_directory fs @ cs)) c"
    using full_path_name_snoc [of "current_directory fs @ cs" c] by simp
  with Relative show ?thesis by simp
qed

lemma absolute_Rooted_plain: "plain cs \<Longrightarrow> absolute fs (Rooted cs) = Rooted cs"
  by (simp add: full_path_name_plain)

lemma plain_absolute: "plain (file_names (absolute fs p))"
  by (cases p) (simp_all add: plain_full_path_name)

lemma walk_up_unfold:
  assumes "file_names (absolute fs p) = cs"
  shows "walk_up fs root p =
     (if has_assets fs cs then Some (Some (Rooted (cs @ [''assets''])))
      else if Rooted (butlast cs) \<noteq> root then walk_up fs root (Rooted (butlast cs))
      else Some None)"
proof -
  have pl: "plain cs" using assms plain_absolute [of fs p] by simp
  then have pa: "plain (cs @ [''assets''])" by (simp add: plain_def)
  have a1: "absolute fs (append_path p ''assets'') = Rooted (cs @ [''assets''])"
    using assms by (simp add: absolute_append)
  have a2: "absolute fs (append_path p ''..'') = Rooted (butlast cs)"
    using assms by (simp add: absolute_append)
  have a3: "full_path_name (butlast cs) = butlast cs"
    using plain_butlast [OF pl] by (rule full_path_name_plain)
  have a4: "is_directory fs (Rooted (cs @ [''assets''])) = has_assets fs cs"
    using pa by (simp add: is_directory_def has_assets_def full_path_name_plain)
  show ?thesis
    by (subst walk_up.simps) (simp add: a1 a2 a3 a4 Let_def)
qed

lemma ancestor_0: "ancestor cs 0 = cs"
  by (simp add: ancestor_def)

lemma ancestor_butlast: "ancestor (butlast cs) k = ancestor cs (Suc k)"
  by (simp add: ancestor_def butlast_conv_take)

lemma walk_up_nearest:
  assumes "plain cs" and "root = Rooted [] \<or> root = Relative []"
    and "k = 0 \<or> k < length cs"
    and "has_assets fs (ancestor cs k)"
    and "\<forall>j<k. \<not> has_assets fs (ancestor cs j)"
  shows "walk_up fs root (Rooted cs) = Some (Some (Rooted (ancestor cs k @ [''assets''])))"
  using assms
proof (induction k arbitrary: cs)
  case 0
  have "file_names (absolute fs (Rooted cs)) = cs"
    using "0.prems"(1) by (simp add: full_path_name_plain)
  from walk_up_unfold [OF this] "0.prems"(4) show ?case
    by (simp add: ancestor_0)
next
  case (Suc k)
  have fn: "file_names (absolute fs (Rooted cs)) = cs"
    using Suc.prems(1) by (simp add: full_path_name_plain)
  have len: "Suc k < length cs" using Suc.prems(3) by simp
  then have ne: "butlast cs \<noteq> []" by (cases cs rule: rev_cases) auto
  have no: "\<not> has_assets fs cs" using Suc.prems(5) ancestor_0 [of cs] by force
  have step: "walk_up fs root (Rooted cs) = walk_up fs root (Rooted (butlast cs))"
    using walk_up_unfold [OF fn, of root] no ne Suc.prems(2) by auto
  have "walk_up fs root (Rooted (butlast cs))
      = Some (Some (Rooted (ancestor (butlast cs) k @ [''assets''])))"
  proof (rule Suc.IH)
    show "plain (butlast cs)" using Suc.prems(1) by (rule plain_butlast)
    show "root = Rooted [] \<or> root = Relative []" by (rule Suc.prems(2))
    show "k = 0 \<or> k < length (butlast cs)" using len by (simp add: less_diff_conv)
    show "has_assets fs (ancestor (butlast cs) k)"
      using Suc.prems(4) by (simp add: ancestor_butlast)
    show "\<forall>j<k. \<not> has_assets fs (ancestor (butlast cs) j)"
      using Suc.prems(5) by (simp add: ancestor_butlast)
  qed
  with step show ?case by (simp add: ancestor_butlast)
qed

lemma walk_up_absolute: "walk_up fs root p = walk_up fs root (absolute fs p)"
proof -
  obtain cs where cs: "file_names (absolute fs p) = cs" by simp
  have pl: "plain cs" using cs plain_absolute [of fs p] by simp
  have "absolute fs p = Rooted cs" using cs by (cases p) auto
  moreover have "file_names (absolute fs (Rooted cs)) = cs"
    using pl by (simp add: full_path_name_plain)
  ultimately show ?thesis
    using walk_up_unfold [OF cs, of root] walk_up_unfold [of fs "Rooted cs" cs root] by simp
qed

lemma walk_up_returns:
  "plain cs \<Longrightarrow> \<exists>r. walk_up fs (Rooted []) (Rooted cs) = Some r"
proof (induction cs rule: rev_induct)
  case Nil
  have "file_names (absolute fs (Rooted [])) = []" by (simp add: full_path_name_def)
  from walk_up_unfold [OF this, of "Rooted []"] show ?case by simp
next
  case (snoc c cs)
  have fn: "file_names (absolute fs (Rooted (cs @ [c]))) = cs @ [c]"
    using snoc.prems by (simp add: full_path_name_plain)
  have "plain cs" using snoc.prems by (simp add: plain_def)
  with snoc.IH obtain r where "walk_up fs (Rooted []) (Rooted cs) = Some r" by blast
  with walk_up_unfold [OF fn, of "Rooted []"] show ?case by simp
qed


lemma walk_up_start:
  assumes "file_names (absolute fs d) = cs"
  shows "try_get_asset_path fs d = walk_up fs (root_path d) (Rooted cs)"
proof -
  have "absolute fs d = Rooted cs" using assms by (cases d) auto
  then show ?thesis
    using walk_up_absolute [of fs "root_path d" d] by (simp add: try_get_asset_path_def)
qed

lemma root_path_cases: "root_path d = Rooted [] \<or> root_path d = Relative []"
  by (cases d) simp_all

lemmas locator_eval = try_get_asset_path_def is_directory_def full_path_name_def
  has_assets_def ancestor_def plain_def

section \<open>The search for the assets folder\<close>

text \<open>
  C1, as the code has it.  Let \<open>cs\<close> be the starting directory \<open>d\<close> made absolute, and
  let the directory \<open>k\<close> parent traversals above it be the nearest one with a child
  directory \<^verbatim>\<open>assets\<close>, where that directory is \<open>d\<close> itself or lies below the
  filesystem root.  Then the search returns the path of that \<^verbatim>\<open>assets\<close> directory
  (the ancestor's path with \<^verbatim>\<open>assets\<close> appended), and so never one of a more distant
  ancestor.
\<close>

theorem try_get_asset_path_nearest:
  assumes "file_names (absolute fs d) = cs"
    and "k = 0 \<or> k < length cs"
    and "has_assets fs (ancestor cs k)"
    and "\<forall>j<k. \<not> has_assets fs (ancestor cs j)"
  shows "try_get_asset_path fs d = Some (Some (Rooted (ancestor cs k @ [''assets''])))"
proof -
  have "plain cs" using assms(1) plain_absolute [of fs d] by simp
  from walk_up_nearest [OF this root_path_cases assms(2) assms(3) assms(4)]
  show ?thesis using walk_up_start [OF assms(1)] by simp
qed

text \<open>
  C1, an instance: started in \<^verbatim>\<open>proj\build\<close>, one traversal up, the search returns
  \<^verbatim>\<open>proj\assets\<close>.
\<close>

theorem try_get_asset_path_nearest_witness:
  "file_names (absolute example_files (Rooted [''proj'', ''build''])) = [''proj'', ''build'']
   \<and> (1 = (0::nat) \<or> 1 < length [''proj'', ''build''])
   \<and> has_assets example_files (ancestor [''proj'', ''build''] 1)
   \<and> \<not> has_assets example_files (ancestor [''proj'', ''build''] 0)
   \<and> try_get_asset_path example_files (Rooted [''proj'', ''build''])
       = Some (Some (Rooted [''proj'', ''assets'']))"
proof -
  have h1: "file_names (absolute example_files (Rooted [''proj'', ''build'']))
            = [''proj'', ''build'']"
    by (simp add: full_path_name_def)
  have h2: "1 = (0::nat) \<or> 1 < length [''proj'', ''build'']" by simp
  have h3: "has_assets example_files (ancestor [''proj'', ''build''] 1)"
    by (simp add: has_assets_def ancestor_def example_files_def)
  have h4: "\<forall>j<1. \<not> has_assets example_files (ancestor [''proj'', ''build''] j)"
    by (simp add: has_assets_def ancestor_def example_files_def)
  have h5: "\<not> has_assets example_files (ancestor [''proj'', ''build''] 0)"
    by (simp add: has_assets_def ancestor_def example_files_def)
  from try_get_asset_path_nearest [OF h1 h2 h3 h4] h1 h2 h3 h5
  show ?thesis by (simp add: ancestor_def)
qed

text \<open>
  C1 as written fails: started in \<^verbatim>\<open>proj\<close>, which has the child \<^verbatim>\<open>assets\<close>, the
  search does not return \<^verbatim>\<open>proj\<close>, the nearest ancestor; it returns
  \<^verbatim>\<open>proj\assets\<close>.
\<close>

theorem try_get_asset_path_returns_folder_counterexample:
  "has_assets example_files (ancestor [''proj''] 0)
   \<and> try_get_asset_path example_files (Rooted [''proj''])
       \<noteq> Some (Some (Rooted (ancestor [''proj''] 0)))
   \<and> try_get_asset_path example_files (Rooted [''proj''])
       = Some (Some (Rooted [''proj'', ''assets'']))"
  by (simp add: locator_eval example_files_def walk_up.simps)

text \<open>
  C4 at \<^verbatim>\<open>C:\a\<close>, where the only \<^verbatim>\<open>assets\<close> folder is the child of the root: the
  walk reaches the root and stops without looking for the root's \<^verbatim>\<open>assets\<close>; the
  search returns empty.
\<close>

theorem try_get_asset_path_skips_root:
  "has_assets root_assets_files (ancestor [''a''] 1)
   \<and> ancestor [''a''] 1 = []
   \<and> try_get_asset_path root_assets_files (Rooted [''a'']) = Some None"
  by (simp add: locator_eval root_assets_files_def walk_up.simps)

text \<open>
  On rooted starting directories, the kind \<^verbatim>\<open>get_base_path\<close> passes: from every one of
  them the search returns, and each iteration that begins below the root moves to a
  directory of strictly smaller depth.
\<close>

theorem try_get_asset_path_rooted_returns:
  "(\<exists>r. try_get_asset_path fs (Rooted cs) = Some r)
   \<and> (plain cs \<and> cs \<noteq> [] \<longrightarrow>
        length (file_names (absolute fs (append_path (Rooted cs) ''..''))) < length cs)"
proof
  obtain ns where ns: "file_names (absolute fs (Rooted cs)) = ns" by simp
  have "plain ns" using ns plain_absolute [of fs "Rooted cs"] by simp
  from walk_up_returns [OF this, of fs] show "\<exists>r. try_get_asset_path fs (Rooted cs) = Some r"
    using walk_up_start [OF ns] by simp
next
  show "plain cs \<and> cs \<noteq> [] \<longrightarrow>
        length (file_names (absolute fs (append_path (Rooted cs) ''..''))) < length cs"
    by (simp add: full_path_name_snoc full_path_name_plain)
qed

text \<open>An instance: started in \<^verbatim>\<open>proj\build\<close> with no \<^verbatim>\<open>assets\<close> folder anywhere.\<close>

theorem try_get_asset_path_rooted_returns_witness:
  "plain [''proj'', ''build''] \<and> [''proj'', ''build''] \<noteq> []
   \<and> (\<exists>r. try_get_asset_path no_assets_files (Rooted [''proj'', ''build'']) = Some r)
   \<and> length (file_names
        (absolute no_assets_files (append_path (Rooted [''proj'', ''build'']) ''..''))) < 2"
proof -
  have h: "plain [''proj'', ''build''] \<and> [''proj'', ''build''] \<noteq> []"
    by (simp add: plain_def)
  from try_get_asset_path_rooted_returns [of no_assets_files "[''proj'', ''build'']"] h
  show ?thesis by simp
qed


section \<open>Evaluation on the example worlds\<close>

lemmas eval_defs = main_def Application_ctor_def Application_dtor_def setupSDLWindow_def
  setupOpenGL_def setupImGui_def Setup_def setup_wav_def setup_ogg_def LoadTextureFromFile_def
  get_base_path_def try_get_asset_path_def is_directory_def full_path_name_def
  Shutdown_def Update_def updateWindowEvents_def ImGuiDraw_def
  initial_globals_def initial_Application_def initial_Demo_def
  example_env_def example_files_def exe_only_files_def no_assets_files_def
  example_image_path_def example_wav_path_def example_ogg_path_def
  wav_missing_env_def ogg_missing_env_def surround_env_def surround_spec_def
  quit_frame_def quit_frames_def get_openal_format_def
  acquired_def released_def release_order_def acquire_order_def List.map_filter_def
  AUDIO_U8_def AUDIO_S16SYS_def AUDIO_F32SYS_def Let_def

section \<open>Traces of the lifecycle\<close>

lemma acquired_Nil: "acquired [] = []"
  by (simp add: acquired_def List.map_filter_def)

lemma released_Nil: "released [] = []"
  by (simp add: released_def List.map_filter_def)

lemma acquired_Cons:
  "acquired (c # t) = (case acquires c of None \<Rightarrow> acquired t | Some r \<Rightarrow> r # acquired t)"
  by (simp add: acquired_def List.map_filter_def split: option.splits)

lemma released_Cons:
  "released (c # t) = (case releases c of None \<Rightarrow> released t | Some r \<Rightarrow> r # released t)"
  by (simp add: released_def List.map_filter_def split: option.splits)

lemma acquired_append: "acquired (t @ u) = acquired t @ acquired u"
  by (simp add: acquired_def List.map_filter_def)

lemma released_append: "released (t @ u) = released t @ released u"
  by (simp add: released_def List.map_filter_def)

lemmas trace_simps = acquired_Nil released_Nil acquired_Cons released_Cons
  acquired_append released_append

lemma get_base_path_trace:
  assumes "get_base_path e g = Some (r, g', t)"
  shows "acquired t = [] \<and> released t = []"
  using assms
  by (auto simp: get_base_path_def trace_simps split: option.splits)

lemma setup_ogg_trace:
  assumes "setup_ogg e g = Some (r, g', t)"
  shows "acquired t = [] \<and> released t = []"
proof (cases "get_base_path e g")
  case None
  with assms show ?thesis by (simp add: setup_ogg_def)
next
  case (Some a)
  obtain r0 g0 t0 where a: "a = (r0, g0, t0)" by (cases a)
  from get_base_path_trace Some a have t0: "acquired t0 = [] \<and> released t0 = []" by blast
  show ?thesis
  proof (cases r0)
    case (Inl x)
    with assms Some a t0 show ?thesis by (simp add: setup_ogg_def)
  next
    case (Inr base)
    with assms Some a t0 show ?thesis
      by (auto simp: setup_ogg_def Let_def trace_simps split: prod.splits if_splits)
  qed
qed

lemma setup_wav_trace:
  assumes "setup_wav e g = Some (r, g', t)"
  shows "acquired t = [] \<and> released t = []"
proof (cases "get_base_path e g")
  case None
  with assms show ?thesis by (simp add: setup_wav_def)
next
  case (Some a)
  obtain r0 g0 t0 where a: "a = (r0, g0, t0)" by (cases a)
  from get_base_path_trace Some a have t0: "acquired t0 = [] \<and> released t0 = []" by blast
  show ?thesis
  proof (cases r0)
    case (Inl x)
    with assms Some a t0 show ?thesis by (simp add: setup_wav_def)
  next
    case (Inr base)
    with assms Some a t0 show ?thesis
      by (auto simp: setup_wav_def Let_def trace_simps
          split: prod.splits option.splits dest: setup_ogg_trace)
  qed
qed

lemma LoadTextureFromFile_trace:
  assumes "LoadTextureFromFile e filename out = (ok, out', t)"
  shows "acquired t = (if ok then [Texture] else []) \<and> released t = []"
  using assms
  by (auto simp: LoadTextureFromFile_def trace_simps split: option.splits)

lemma Setup_trace:
  assumes "Setup e g d = Some (r, g', t)"
  shows "released t = [] \<and>
         (\<forall>d'. r = Inr d' \<longrightarrow>
            acquired t = (if loaded (example_image d') then [Texture] else [])
                         @ [AL_buffers, AL_sources])"
proof (cases "get_base_path e g")
  case None
  with assms show ?thesis by (simp add: Setup_def)
next
  case (Some a)
  obtain r0 g0 t0 where a: "a = (r0, g0, t0)" by (cases a)
  from get_base_path_trace Some a have t0: "acquired t0 = [] \<and> released t0 = []" by blast
  show ?thesis
  proof (cases r0)
    case (Inl x)
    with assms Some a t0 show ?thesis by (auto simp: Setup_def)
  next
    case (Inr base)
    obtain ok tex w h t1 where l: "LoadTextureFromFile e
        (append_path (append_path base ''images'') ''duck.png'')
        (handle (example_image d), width (example_image d), height (example_image d))
        = (ok, (tex, w, h), t1)"
      by (metis prod_cases3)
    from LoadTextureFromFile_trace [OF l]
    have t1: "acquired t1 = (if ok then [Texture] else []) \<and> released t1 = []" .
    show ?thesis
    proof (cases "setup_wav e g0")
      case None
      with assms Some a Inr l show ?thesis by (simp add: Setup_def Let_def)
    next
      case (Some b)
      obtain r2 g2 t2 where b: "b = (r2, g2, t2)" by (cases b)
      from setup_wav_trace Some b have t2: "acquired t2 = [] \<and> released t2 = []" by blast
      from assms \<open>get_base_path e g = Some a\<close> a Inr l Some b t0 t1 t2 show ?thesis
        by (cases r2) (auto simp: Setup_def Let_def trace_simps)
    qed
  qed
qed

lemma Application_ctor_trace:
  assumes "Application_ctor e title g = Some (r, g', t)"
  shows "released t = [] \<and>
         (\<forall>app. r = Inr app \<longrightarrow>
            acquired t =
              [SDL_library, Window, GL_context, ImGui_context, ImGui_SDL2_backend,
               ImGui_OpenGL3_backend]
              @ (if al_device app = nullptr then [] else [AL_device])
              @ (if al_context app = nullptr then [] else [AL_context])
              @ (if loaded (example_image (demo app)) then [Texture] else [])
              @ [AL_buffers, AL_sources]
            \<and> ptr_window app \<noteq> nullptr \<and> gl_context app \<noteq> nullptr
            \<and> al_device app = alc_open_device e \<and> al_context app = alc_create_context e)"
proof (cases "title = None \<or> title = Some []")
  case True
  with assms show ?thesis by (auto simp: Application_ctor_def trace_simps)
next
  case title: False
  show ?thesis
  proof (cases "sdl_init e < 0 \<or> sdl_create_window e = nullptr \<or>
                sdl_gl_create_context e = nullptr \<or> \<not> glew_ok e")
    case True
    with assms title show ?thesis
      by (auto simp: Application_ctor_def setupSDLWindow_def setupOpenGL_def trace_simps
          split: if_splits)
  next
    case False
    let ?d = "demo initial_Application"
    let ?g1 = "g\<lparr>gWindowWidth := fst (sdl_window_size e),
                  gWindowHeight := snd (sdl_window_size e)\<rparr>"
    show ?thesis
    proof (cases "Setup e ?g1 ?d")
      case None
      with assms title False show ?thesis
        by (simp add: Application_ctor_def setupSDLWindow_def setupOpenGL_def Let_def)
    next
      case (Some b)
      obtain r2 g2 t2 where b: "b = (r2, g2, t2)" by (cases b)
      from Setup_trace Some b
      have t2: "released t2 = [] \<and>
         (\<forall>d'. r2 = Inr d' \<longrightarrow>
            acquired t2 = (if loaded (example_image d') then [Texture] else [])
                          @ [AL_buffers, AL_sources])" by blast
      from assms title False Some b t2 show ?thesis
        by (cases r2)
          (auto simp: Application_ctor_def setupSDLWindow_def setupOpenGL_def setupImGui_def
            Let_def trace_simps)
    qed
  qed
qed

lemma Application_dtor_trace:
  assumes "ptr_window app \<noteq> nullptr" and "gl_context app \<noteq> nullptr"
  shows "acquired (Application_dtor app) = [] \<and>
         released (Application_dtor app) =
           (if loaded (example_image (demo app)) then [Texture] else [])
           @ [AL_sources, AL_buffers]
           @ (if al_context app = nullptr then [] else [AL_context])
           @ (if al_device app = nullptr then [] else [AL_device])
           @ [ImGui_OpenGL3_backend, ImGui_SDL2_backend, ImGui_context, GL_context, Window,
              SDL_library]"
  using assms by (simp add: Application_dtor_def Shutdown_def trace_simps)

lemma ImGuiDraw_trace: "acquired (ImGuiDraw d f) = [] \<and> released (ImGuiDraw d f) = []"
  by (simp add: ImGuiDraw_def trace_simps)

lemma handle_event_same: "same_resources (fst (handle_event st ev)) (fst st)"
  by (cases st; cases ev) (simp_all add: same_resources_def)

lemma updateWindowEvents_same: "same_resources (fst (updateWindowEvents evs st)) (fst st)"
proof (induction evs arbitrary: st)
  case Nil
  show ?case by (simp add: updateWindowEvents_def same_resources_def)
next
  case (Cons ev evs)
  from Cons.IH [of "handle_event st ev"] handle_event_same [of st ev] show ?case
    by (simp add: updateWindowEvents_def same_resources_def)
qed

lemma Update_trace:
  "same_resources (fst (fst (Update f st))) (fst st)
   \<and> acquired (snd (Update f st)) = [] \<and> released (snd (Update f st)) = []"
  using updateWindowEvents_same [of "events f" st]
  by (simp add: Update_def Let_def trace_simps ImGuiDraw_trace)

lemma main_loop_trace:
  assumes "main_loop frames n st t = Some r"
  shows "same_resources (fst (fst r)) (fst st) \<and> acquired (snd r) = acquired t
         \<and> released (snd r) = released t"
proof (rule main_loop.raw_induct
    [where P = "\<lambda>frames n st t r. same_resources (fst (fst r)) (fst st)
         \<and> acquired (snd r) = acquired t \<and> released (snd r) = released t",
     OF _ assms])
  fix ml :: "(nat \<Rightarrow> frame) \<Rightarrow> nat \<Rightarrow> Application \<times> globals \<Rightarrow> call list
       \<Rightarrow> ((Application \<times> globals) \<times> call list) option"
  fix frames n st t r
  assume IH: "\<And>frames n st t r. ml frames n st t = Some r \<Longrightarrow>
     same_resources (fst (fst r)) (fst st) \<and> acquired (snd r) = acquired t
     \<and> released (snd r) = released t"
  assume body: "(if is_done (fst st) then Some (st, t)
      else ml frames (Suc n) (fst (Update (frames n) st))
             (t @ snd (Update (frames n) st))) = Some r"
  show "same_resources (fst (fst r)) (fst st) \<and> acquired (snd r) = acquired t
     \<and> released (snd r) = released t"
  proof (cases "is_done (fst st)")
    case True
    with body show ?thesis by (auto simp: same_resources_def)
  next
    case False
    with body have "ml frames (Suc n) (fst (Update (frames n) st))
        (t @ snd (Update (frames n) st)) = Some r"
      by simp
    from IH [OF this] Update_trace [of "frames n" st] show ?thesis
      by (simp add: same_resources_def trace_simps)
  qed
qed

section \<open>The asset root\<close>

text \<open>
  C7.  After a call of \<^verbatim>\<open>get_base_path\<close> has returned a path, every later call
  returns the same path, whatever the filesystem and the rest of the outside world have
  become, leaves the static as it is and makes no call at all: it neither asks for the
  current directory or the directory of the executable nor walks the filesystem.
\<close>

theorem get_base_path_memoized:
  assumes "get_base_path e g = Some (Inr p, g', t)"
  shows "get_base_path e' g' = Some (Inr p, g', [])"
  using assms
  by (auto simp: get_base_path_def split: option.splits)

text \<open>
  C7, an instance: resolved in the example checkout, then asked again after every
  \<^verbatim>\<open>assets\<close> folder has gone.
\<close>

theorem get_base_path_memoized_witness:
  "get_base_path example_env initial_globals
     = Some (Inr (Rooted [''proj'', ''assets'']),
             initial_globals\<lparr>assets_folder := Some (Rooted [''proj'', ''assets''])\<rparr>,
             [Current_path])
   \<and> get_base_path (example_env\<lparr>files := no_assets_files\<rparr>)
        (initial_globals\<lparr>assets_folder := Some (Rooted [''proj'', ''assets''])\<rparr>)
     = Some (Inr (Rooted [''proj'', ''assets'']),
             initial_globals\<lparr>assets_folder := Some (Rooted [''proj'', ''assets''])\<rparr>, [])"
proof -
  have h: "get_base_path example_env initial_globals
     = Some (Inr (Rooted [''proj'', ''assets'']),
             initial_globals\<lparr>assets_folder := Some (Rooted [''proj'', ''assets''])\<rparr>,
             [Current_path])"
    by (simp add: eval_defs walk_up.simps)
  from get_base_path_memoized [OF h, of "example_env\<lparr>files := no_assets_files\<rparr>"] h
  show ?thesis by simp
qed

text \<open>
  C8.  With the static not yet initialised, \<^verbatim>\<open>get_base_path\<close> returns, and: when the
  search from the current directory finds a folder, that folder is the result and
  \<^verbatim>\<open>SDL_GetBasePath\<close> is not called, so no search from the directory of the
  executable takes place; when it finds none and the search from the directory of the
  executable finds one, that one is the result; when neither finds one, it throws.
\<close>

theorem get_base_path_order:
  assumes "assets_folder g = None"
  shows "get_base_path e g \<noteq> None
    \<and> (try_get_asset_path (files e) (Rooted (current_directory (files e))) = Some (Some r) \<longrightarrow>
         get_base_path e g = Some (Inr r, g\<lparr>assets_folder := Some r\<rparr>, [Current_path]))
    \<and> (try_get_asset_path (files e) (Rooted (current_directory (files e))) = Some None
         \<and> try_get_asset_path (files e) (Rooted (base_directory (files e))) = Some (Some r) \<longrightarrow>
         get_base_path e g = Some (Inr r, g\<lparr>assets_folder := Some r\<rparr>,
                                   [Current_path, SDL_GetBasePath, SDL_free]))
    \<and> (try_get_asset_path (files e) (Rooted (current_directory (files e))) = Some None
         \<and> try_get_asset_path (files e) (Rooted (base_directory (files e))) = Some None \<longrightarrow>
         get_base_path e g = Some (Inl Assets_folder_not_found, g,
                                   [Current_path, SDL_GetBasePath, SDL_free]))"
proof -
  obtain r1 where r1:
    "try_get_asset_path (files e) (Rooted (current_directory (files e))) = Some r1"
    using walk_up_returns [OF plain_absolute,
        of "files e" "files e" "Rooted (current_directory (files e))"]
      walk_up_start [of "files e" "Rooted (current_directory (files e))"]
    by auto
  obtain r2 where r2:
    "try_get_asset_path (files e) (Rooted (base_directory (files e))) = Some r2"
    using walk_up_returns [OF plain_absolute,
        of "files e" "files e" "Rooted (base_directory (files e))"]
      walk_up_start [of "files e" "Rooted (base_directory (files e))"]
    by auto
  show ?thesis using assms r1 r2
    by (auto simp: get_base_path_def split: option.splits)
qed

text \<open>
  C8, three instances: the folder is found from the current directory; it is found
  from the directory of the executable only; it is found from neither.
\<close>

theorem get_base_path_order_witness:
  "assets_folder initial_globals = None
   \<and> get_base_path example_env initial_globals
     = Some (Inr (Rooted [''proj'', ''assets'']),
             initial_globals\<lparr>assets_folder := Some (Rooted [''proj'', ''assets''])\<rparr>,
             [Current_path])
   \<and> get_base_path (example_env\<lparr>files := exe_only_files\<rparr>) initial_globals
     = Some (Inr (Rooted [''proj'', ''assets'']),
             initial_globals\<lparr>assets_folder := Some (Rooted [''proj'', ''assets''])\<rparr>,
             [Current_path, SDL_GetBasePath, SDL_free])
   \<and> get_base_path (example_env\<lparr>files := no_assets_files\<rparr>) initial_globals
     = Some (Inl Assets_folder_not_found, initial_globals,
             [Current_path, SDL_GetBasePath, SDL_free])"
proof -
  have h: "assets_folder initial_globals = None" by (simp add: initial_globals_def)
  have a: "try_get_asset_path (files example_env)
             (Rooted (current_directory (files example_env)))
           = Some (Some (Rooted [''proj'', ''assets'']))"
    by (simp add: eval_defs walk_up.simps)
  have b1: "try_get_asset_path (files (example_env\<lparr>files := exe_only_files\<rparr>))
             (Rooted (current_directory (files (example_env\<lparr>files := exe_only_files\<rparr>))))
           = Some None"
    by (simp add: eval_defs walk_up.simps)
  have b2: "try_get_asset_path (files (example_env\<lparr>files := exe_only_files\<rparr>))
             (Rooted (base_directory (files (example_env\<lparr>files := exe_only_files\<rparr>))))
           = Some (Some (Rooted [''proj'', ''assets'']))"
    by (simp add: eval_defs walk_up.simps)
  have c1: "try_get_asset_path (files (example_env\<lparr>files := no_assets_files\<rparr>))
             (Rooted (current_directory (files (example_env\<lparr>files := no_assets_files\<rparr>))))
           = Some None"
    by (simp add: eval_defs walk_up.simps)
  have c2: "try_get_asset_path (files (example_env\<lparr>files := no_assets_files\<rparr>))
             (Rooted (base_directory (files (example_env\<lparr>files := no_assets_files\<rparr>))))
           = Some None"
    by (simp add: eval_defs walk_up.simps)
  from get_base_path_order [OF h, of example_env "Rooted [''proj'', ''assets'']"] a
  have 1: "get_base_path example_env initial_globals
     = Some (Inr (Rooted [''proj'', ''assets'']),
             initial_globals\<lparr>assets_folder := Some (Rooted [''proj'', ''assets''])\<rparr>,
             [Current_path])"
    by blast
  from get_base_path_order [OF h, of "example_env\<lparr>files := exe_only_files\<rparr>"
      "Rooted [''proj'', ''assets'']"] b1 b2
  have 2: "get_base_path (example_env\<lparr>files := exe_only_files\<rparr>) initial_globals
     = Some (Inr (Rooted [''proj'', ''assets'']),
             initial_globals\<lparr>assets_folder := Some (Rooted [''proj'', ''assets''])\<rparr>,
             [Current_path, SDL_GetBasePath, SDL_free])"
    by blast
  from get_base_path_order [OF h, of "example_env\<lparr>files := no_assets_files\<rparr>"] c1 c2
  have 3: "get_base_path (example_env\<lparr>files := no_assets_files\<rparr>) initial_globals
     = Some (Inl Assets_folder_not_found, initial_globals,
             [Current_path, SDL_GetBasePath, SDL_free])"
    by blast
  from h 1 2 3 show ?thesis by blast
qed

section \<open>Construction and destruction\<close>

text \<open>
  C10.  With a null or an empty title the constructor throws at once: it makes no
  library call, so no window, graphics context, UI context, audio device, audio context
  or asset comes to exist, and the globals are as before.
\<close>

theorem Application_ctor_empty_title:
  assumes "title = None \<or> title = Some []"
  shows "Application_ctor e title g = Some (Inl Title_empty, g, [])"
  using assms by (auto simp: Application_ctor_def)

text \<open>C10, an instance: the empty title, everything else in order.\<close>

theorem Application_ctor_empty_title_witness:
  "Application_ctor example_env (Some []) initial_globals
     = Some (Inl Title_empty, initial_globals, [])
   \<and> acquired [] = []"
proof -
  have h: "Some [] = (None :: string option) \<or> Some [] = Some ([] :: string)" by simp
  from Application_ctor_empty_title [OF h, of example_env initial_globals]
  show ?thesis by (simp add: acquired_Nil)
qed

text \<open>
  C2, as the code has it.  In every run of \<^verbatim>\<open>main\<close> that ends with status 0 (the
  constructor returned, the loop ran and the destructor ran), the subsystems are
  released in the exact reverse of the order in which they were acquired; with an audio
  device and an audio context opened that is: loaded assets, audio context, audio
  device, UI context, graphics context, window.
\<close>
theorem shutdown_reverses_acquisition:
  assumes "main e frames = Some (0, t)"
  shows "release_order t = rev (acquire_order t)
     \<and> (alc_open_device e \<noteq> nullptr \<and> alc_create_context e \<noteq> nullptr \<longrightarrow>
          release_order t =
            [Loaded_assets, Audio_context, Audio_device, Ui_context, Graphics_context,
             Window_subsystem])"
proof -
  from assms obtain app g tc where
    ctor: "Application_ctor e (Some ''Programming Fun App'') initial_globals
             = Some (Inr app, g, tc)"
    by (auto simp: main_def split: option.splits sum.splits)
  with assms obtain r where
    loop: "main_loop frames 0 (app, g) tc = Some r"
    and t: "t = snd r @ Application_dtor (fst (fst r))"
    by (auto simp: main_def split: option.splits)
  from Application_ctor_trace [OF ctor]
  have c: "released tc = []"
    "acquired tc =
       [SDL_library, Window, GL_context, ImGui_context, ImGui_SDL2_backend,
        ImGui_OpenGL3_backend]
       @ (if al_device app = nullptr then [] else [AL_device])
       @ (if al_context app = nullptr then [] else [AL_context])
       @ (if loaded (example_image (demo app)) then [Texture] else [])
       @ [AL_buffers, AL_sources]"
    "ptr_window app \<noteq> nullptr" "gl_context app \<noteq> nullptr"
    "al_device app = alc_open_device e" "al_context app = alc_create_context e"
    by simp_all
  from main_loop_trace [OF loop]
  have l: "same_resources (fst (fst r)) app" "acquired (snd r) = acquired tc"
    "released (snd r) = released tc"
    by simp_all
  let ?app = "fst (fst r)"
  have p: "ptr_window ?app \<noteq> nullptr" "gl_context ?app \<noteq> nullptr"
    using l(1) c(3,4) by (simp_all add: same_resources_def)
  from Application_dtor_trace [OF p]
  have d: "acquired (Application_dtor ?app) = []"
    "released (Application_dtor ?app) =
           (if loaded (example_image (demo app)) then [Texture] else [])
           @ [AL_sources, AL_buffers]
           @ (if al_context app = nullptr then [] else [AL_context])
           @ (if al_device app = nullptr then [] else [AL_device])
           @ [ImGui_OpenGL3_backend, ImGui_SDL2_backend, ImGui_context, GL_context, Window,
              SDL_library]"
    using l(1) by (simp_all add: same_resources_def)
  have acq: "acquired t = acquired tc" using t l(2) d(1) by (simp add: acquired_append)
  have rel: "released t = released (Application_dtor ?app)"
    using t l(3) c(1) by (simp add: released_append)
  show ?thesis
    using acq rel c(2) d(2) c(5,6) by (simp add: release_order_def acquire_order_def)
qed

text \<open>
  C2, an instance: the example world, the window closed in the first frame.
\<close>

theorem shutdown_reverses_acquisition_witness:
  "\<exists>t. main example_env quit_frames = Some (0, t)
       \<and> release_order t = rev (acquire_order t)
       \<and> release_order t =
            [Loaded_assets, Audio_context, Audio_device, Ui_context, Graphics_context,
             Window_subsystem]"
proof -
  have "map_option fst (main example_env quit_frames) = Some 0"
    by (simp add: eval_defs walk_up.simps main_loop.simps)
  then obtain t where h: "main example_env quit_frames = Some (0, t)" by auto
  have a: "alc_open_device example_env \<noteq> nullptr \<and> alc_create_context example_env \<noteq> nullptr"
    by (simp add: example_env_def)
  from shutdown_reverses_acquisition [OF h] a h show ?thesis by blast
qed

text \<open>
  C2 as written fails: in the example world the audio context and the audio device are
  released before the UI context, not after it.
\<close>

theorem shutdown_order_counterexample:
  "map_option (release_order \<circ> snd) (main example_env quit_frames)
     = Some [Loaded_assets, Audio_context, Audio_device, Ui_context, Graphics_context,
             Window_subsystem]
   \<and> map_option (release_order \<circ> snd) (main example_env quit_frames)
     \<noteq> Some [Loaded_assets, Ui_context, Audio_context, Audio_device, Graphics_context,
             Window_subsystem]"
  by (simp add: eval_defs walk_up.simps main_loop.simps)

lemma main_of_failed_ctor:
  assumes "Application_ctor e (Some ''Programming Fun App'') initial_globals = Some (Inl x, g, t)"
  shows "main e frames = Some (- 1, t)"
  using assms by (simp add: main_def)

lemma main_status_nonzero:
  assumes "main e frames = Some (c, t)" and "c \<noteq> 0"
  shows "c = - 1 \<and> released t = []
     \<and> (\<exists>x g. Application_ctor e (Some ''Programming Fun App'') initial_globals
                = Some (Inl x, g, t))"
proof -
  from assms obtain x g where
    ctor: "Application_ctor e (Some ''Programming Fun App'') initial_globals
             = Some (Inl x, g, t)" and c: "c = - 1"
    by (auto simp: main_def split: option.splits sum.splits)
  from Application_ctor_trace [OF ctor] ctor c show ?thesis by blast
qed

text \<open>
  C3, as the code has it.  Whenever the initialization fails, that is, the constructor
  called by \<^verbatim>\<open>main\<close> throws at some stage, \<^verbatim>\<open>main\<close> returns \<open>-1\<close> having made
  exactly the calls of the constructor, and none of these calls releases anything: no
  subsystem of the failing stage or a later one is released and none is released twice,
  but the subsystems created before the failure are not released either.
\<close>

theorem failed_construction_releases_nothing:
  assumes "Application_ctor e (Some ''Programming Fun App'') initial_globals
             = Some (Inl x, g, t)"
  shows "main e frames = Some (- 1, t) \<and> released t = []"
proof -
  have "main e frames = Some (- 1, t)" using assms by (simp add: main_def)
  moreover from Application_ctor_trace [OF assms] have "released t = []" by simp
  ultimately show ?thesis by simp
qed

text \<open>C3, an instance: the WAV file is missing.\<close>

theorem failed_construction_releases_nothing_witness:
  "\<exists>g t. Application_ctor wav_missing_env (Some ''Programming Fun App'') initial_globals
            = Some (Inl (Load_WAV_failed example_wav_path), g, t)
         \<and> main wav_missing_env quit_frames = Some (- 1, t) \<and> released t = []"
proof -
  have "map_option fst
          (Application_ctor wav_missing_env (Some ''Programming Fun App'') initial_globals)
        = Some (Inl (Load_WAV_failed example_wav_path))"
    by (simp add: eval_defs walk_up.simps)
  then obtain g t where h:
    "Application_ctor wav_missing_env (Some ''Programming Fun App'') initial_globals
       = Some (Inl (Load_WAV_failed example_wav_path), g, t)"
    by auto
  from failed_construction_releases_nothing [OF h, of quit_frames] h show ?thesis by blast
qed

text \<open>
  C3 as written fails: with the WAV file missing, loading the assets fails after the
  window, the graphics context, the UI and the audio device and context were created;
  the run ends with status \<open>-1\<close> and releases none of them.
\<close>

theorem failed_construction_counterexample:
  "map_option fst (main wav_missing_env quit_frames) = Some (- 1)
   \<and> map_option (acquired \<circ> snd) (main wav_missing_env quit_frames)
     = Some [SDL_library, Window, GL_context, ImGui_context, ImGui_SDL2_backend,
             ImGui_OpenGL3_backend, AL_device, AL_context, Texture, AL_buffers, AL_sources]
   \<and> map_option (released \<circ> snd) (main wav_missing_env quit_frames) = Some []"
  by (simp add: eval_defs walk_up.simps)

section \<open>The assets\<close>

text \<open>
  C5, as the code has it.  \<^verbatim>\<open>get_openal_format\<close> maps one channel of 8-bit
  unsigned samples to \<^verbatim>\<open>AL_FORMAT_MONO8\<close> and two channels of 16-bit signed samples
  to \<^verbatim>\<open>AL_FORMAT_STEREO16\<close>; for every combination that is not one of the four
  standard ones, when the extension \<^verbatim>\<open>AL_EXT_FLOAT32\<close> is absent, it returns
  \<^verbatim>\<open>AL_NONE\<close>.
\<close>

theorem get_openal_format_mapping:
  "(channels spec = 1 \<and> format spec = AUDIO_U8 \<longrightarrow> get_openal_format e spec = AL_FORMAT_MONO8)
   \<and> (channels spec = 2 \<and> format spec = AUDIO_S16SYS \<longrightarrow>
        get_openal_format e spec = AL_FORMAT_STEREO16)
   \<and> (\<not> standard_combination spec \<and> \<not> al_is_extension_present e ''AL_EXT_FLOAT32'' \<longrightarrow>
        get_openal_format e spec = AL_NONE)"
  by (auto simp: get_openal_format_def standard_combination_def AUDIO_U8_def AUDIO_S16SYS_def)

text \<open>C5, instances: mono 8-bit, stereo 16-bit, and six channels of 8-bit samples.\<close>

theorem get_openal_format_mapping_witness:
  "get_openal_format example_env \<lparr>freq = 44100, format = AUDIO_U8, channels = 1\<rparr>
     = AL_FORMAT_MONO8
   \<and> get_openal_format example_env \<lparr>freq = 44100, format = AUDIO_S16SYS, channels = 2\<rparr>
     = AL_FORMAT_STEREO16
   \<and> \<not> standard_combination surround_spec
   \<and> \<not> al_is_extension_present example_env ''AL_EXT_FLOAT32''
   \<and> get_openal_format example_env surround_spec = AL_NONE"
proof -
  have h1: "\<not> standard_combination surround_spec"
    by (simp add: standard_combination_def surround_spec_def)
  have h2: "\<not> al_is_extension_present example_env ''AL_EXT_FLOAT32''"
    by (simp add: example_env_def)
  from get_openal_format_mapping
         [of "\<lparr>freq = 44100, format = AUDIO_U8, channels = 1\<rparr>" example_env]
       get_openal_format_mapping
         [of "\<lparr>freq = 44100, format = AUDIO_S16SYS, channels = 2\<rparr>" example_env]
       get_openal_format_mapping [of surround_spec example_env] h1 h2
  show ?thesis by simp
qed

text \<open>
  C5 as written fails: with a WAV file of six channels and no floating-point extension
  the load does not fail; \<^verbatim>\<open>alBufferData\<close> is called with \<^verbatim>\<open>AL_NONE\<close> and the
  run ends with status 0.
\<close>

theorem unsupported_format_counterexample:
  "\<not> standard_combination surround_spec
   \<and> \<not> al_is_extension_present surround_env ''AL_EXT_FLOAT32''
   \<and> sdl_load_wav surround_env example_wav_path = Some (surround_spec, 1000)
   \<and> map_option fst (main surround_env quit_frames) = Some 0
   \<and> map_option (\<lambda>r. AlBufferData 0 AL_NONE 1000 44100 \<in> set (snd r))
        (main surround_env quit_frames) = Some True"
  by (simp add: eval_defs walk_up.simps main_loop.simps standard_combination_def AL_NONE_def)

lemma get_base_path_stbi_load [simp]:
  "get_base_path (e\<lparr>stbi_load := f\<rparr>) g = get_base_path e g"
  by (simp add: get_base_path_def cong: option.case_cong)

lemma setup_ogg_stbi_load [simp]: "setup_ogg (e\<lparr>stbi_load := f\<rparr>) g = setup_ogg e g"
  by (simp add: setup_ogg_def Let_def cong: option.case_cong prod.case_cong sum.case_cong)

lemma get_openal_format_stbi_load [simp]:
  "get_openal_format (e\<lparr>stbi_load := f\<rparr>) spec = get_openal_format e spec"
  by (simp add: get_openal_format_def cong: if_cong)

lemma setup_wav_stbi_load [simp]: "setup_wav (e\<lparr>stbi_load := f\<rparr>) g = setup_wav e g"
  by (simp add: setup_wav_def Let_def cong: option.case_cong prod.case_cong sum.case_cong)

lemma Setup_missing_image:
  assumes "Setup e g d = Some (Inr d1, g', t)"
  shows "\<exists>d2 t2. Setup (e\<lparr>stbi_load := (\<lambda>p. None)\<rparr>) g d = Some (Inr d2, g', t2)
           \<and> example_image d2 = (example_image d)\<lparr>loaded := False\<rparr>"
  using assms
  by (auto simp: Setup_def LoadTextureFromFile_def Let_def
      split: option.splits sum.splits prod.splits)

lemma get_base_path_sdl_load_wav [simp]:
  "get_base_path (e\<lparr>sdl_load_wav := f\<rparr>) g = get_base_path e g"
  by (simp add: get_base_path_def cong: option.case_cong)

lemma get_base_path_vorbis [simp]:
  "get_base_path (e\<lparr>stb_vorbis_decode_filename := f\<rparr>) g = get_base_path e g"
  by (simp add: get_base_path_def cong: option.case_cong)

lemma get_openal_format_vorbis [simp]:
  "get_openal_format (e\<lparr>stb_vorbis_decode_filename := f\<rparr>) spec = get_openal_format e spec"
  by (simp add: get_openal_format_def cong: if_cong)

lemma Setup_missing_wav:
  assumes "Setup e g d = Some (Inr d1, g', t)"
  shows "\<exists>p g2 t2. Setup (e\<lparr>sdl_load_wav := (\<lambda>p. None)\<rparr>) g d
                      = Some (Inl (Load_WAV_failed p), g2, t2)"
  using assms
  by (auto simp: Setup_def setup_wav_def LoadTextureFromFile_def Let_def
      split: option.splits sum.splits prod.splits)

lemma Setup_missing_ogg:
  assumes "Setup e g d = Some (Inr d1, g', t)"
  shows "\<exists>p g2 t2. Setup (e\<lparr>stb_vorbis_decode_filename := (\<lambda>p. (- 1, 0, 0))\<rparr>) g d
                      = Some (Inl (Load_OGG_failed p), g2, t2)"
  using assms
  by (auto simp: Setup_def setup_wav_def setup_ogg_def LoadTextureFromFile_def Let_def
      split: option.splits sum.splits prod.splits)

lemma ctor_returns_Setup:
  assumes "Application_ctor e title g = Some (Inr app, g', t)"
  shows "\<not> (title = None \<or> title = Some [])
     \<and> \<not> (sdl_init e < 0 \<or> sdl_create_window e = nullptr \<or>
            sdl_gl_create_context e = nullptr \<or> \<not> glew_ok e)
     \<and> (\<exists>d1 t1. Setup e (g\<lparr>gWindowWidth := fst (sdl_window_size e),
                              gWindowHeight := snd (sdl_window_size e)\<rparr>)
                     (demo initial_Application) = Some (Inr d1, g', t1))"
proof -
  from assms have title: "\<not> (title = None \<or> title = Some [])"
    by (auto simp: Application_ctor_def split: if_splits)
  from assms title have ok: "\<not> (sdl_init e < 0 \<or> sdl_create_window e = nullptr \<or>
                sdl_gl_create_context e = nullptr \<or> \<not> glew_ok e)"
    by (auto simp: Application_ctor_def setupSDLWindow_def setupOpenGL_def split: if_splits)
  from assms title ok have "\<exists>d1 t1. Setup e (g\<lparr>gWindowWidth := fst (sdl_window_size e),
                              gWindowHeight := snd (sdl_window_size e)\<rparr>)
                     (demo initial_Application) = Some (Inr d1, g', t1)"
    by (auto simp: Application_ctor_def setupSDLWindow_def setupOpenGL_def Let_def
        split: option.splits sum.splits)
  with title ok show ?thesis by blast
qed

lemma missing_wav_is_fatal:
  assumes "Application_ctor e title g = Some (Inr app, g', t)"
  shows "\<exists>p g2 t2. Application_ctor (e\<lparr>sdl_load_wav := (\<lambda>p. None)\<rparr>) title g
                      = Some (Inl (Load_WAV_failed p), g2, t2)"
proof -
  from ctor_returns_Setup [OF assms] obtain d1 t1 where
    title: "\<not> (title = None \<or> title = Some [])"
    and ok: "\<not> (sdl_init e < 0 \<or> sdl_create_window e = nullptr \<or>
                sdl_gl_create_context e = nullptr \<or> \<not> glew_ok e)"
    and s: "Setup e (g\<lparr>gWindowWidth := fst (sdl_window_size e),
                       gWindowHeight := snd (sdl_window_size e)\<rparr>)
              (demo initial_Application) = Some (Inr d1, g', t1)"
    by blast
  from Setup_missing_wav [OF s] obtain p g2 t2 where
    "Setup (e\<lparr>sdl_load_wav := (\<lambda>p. None)\<rparr>)
       (g\<lparr>gWindowWidth := fst (sdl_window_size e), gWindowHeight := snd (sdl_window_size e)\<rparr>)
       (demo initial_Application) = Some (Inl (Load_WAV_failed p), g2, t2)"
    by blast
  with title ok show ?thesis
    by (auto simp: Application_ctor_def setupSDLWindow_def setupOpenGL_def Let_def)
qed

lemma missing_ogg_is_fatal:
  assumes "Application_ctor e title g = Some (Inr app, g', t)"
  shows "\<exists>p g2 t2. Application_ctor (e\<lparr>stb_vorbis_decode_filename := (\<lambda>p. (- 1, 0, 0))\<rparr>)
                      title g
                      = Some (Inl (Load_OGG_failed p), g2, t2)"
proof -
  from ctor_returns_Setup [OF assms] obtain d1 t1 where
    title: "\<not> (title = None \<or> title = Some [])"
    and ok: "\<not> (sdl_init e < 0 \<or> sdl_create_window e = nullptr \<or>
                sdl_gl_create_context e = nullptr \<or> \<not> glew_ok e)"
    and s: "Setup e (g\<lparr>gWindowWidth := fst (sdl_window_size e),
                       gWindowHeight := snd (sdl_window_size e)\<rparr>)
              (demo initial_Application) = Some (Inr d1, g', t1)"
    by blast
  from Setup_missing_ogg [OF s] obtain p g2 t2 where
    "Setup (e\<lparr>stb_vorbis_decode_filename := (\<lambda>p. (- 1, 0, 0))\<rparr>)
       (g\<lparr>gWindowWidth := fst (sdl_window_size e), gWindowHeight := snd (sdl_window_size e)\<rparr>)
       (demo initial_Application) = Some (Inl (Load_OGG_failed p), g2, t2)"
    by blast
  with title ok show ?thesis
    by (auto simp: Application_ctor_def setupSDLWindow_def setupOpenGL_def Let_def)
qed

text \<open>
  C6, as the code has it.  Take any world in which the constructor returns.  Let the
  image fail to decode: the constructor still returns, with the same globals; the image
  is marked not loaded and its handle is still 0, no texture was created and the
  destructor deletes none, and the UI shows the fallback text.  Let instead the WAV file,
  or the OGG file, fail to decode: the constructor throws, and \<^verbatim>\<open>main\<close> returns
  \<open>-1\<close>.
\<close>

theorem missing_image_is_not_fatal:
  assumes "Application_ctor e title g = Some (Inr app, g', t)"
  shows "(\<exists>app2 t2.
           Application_ctor (e\<lparr>stbi_load := (\<lambda>p. None)\<rparr>) title g = Some (Inr app2, g', t2)
           \<and> \<not> loaded (example_image (demo app2))
           \<and> handle (example_image (demo app2)) = 0
           \<and> Texture \<notin> set (acquired t2)
           \<and> Texture \<notin> set (released (Application_dtor app2))
           \<and> ImGui_Text ''%s'' [String_arg ''Failed to load texture image...'']
               \<in> set (ImGuiDraw (demo app2) f))
     \<and> (\<exists>p g2 t2.
           Application_ctor (e\<lparr>sdl_load_wav := (\<lambda>p. None)\<rparr>) title g
             = Some (Inl (Load_WAV_failed p), g2, t2)
           \<and> (title = Some ''Programming Fun App'' \<and> g = initial_globals \<longrightarrow>
                main (e\<lparr>sdl_load_wav := (\<lambda>p. None)\<rparr>) frames = Some (- 1, t2)))
     \<and> (\<exists>p g2 t2.
           Application_ctor (e\<lparr>stb_vorbis_decode_filename := (\<lambda>p. (- 1, 0, 0))\<rparr>) title g
             = Some (Inl (Load_OGG_failed p), g2, t2)
           \<and> (title = Some ''Programming Fun App'' \<and> g = initial_globals \<longrightarrow>
                main (e\<lparr>stb_vorbis_decode_filename := (\<lambda>p. (- 1, 0, 0))\<rparr>) frames
                  = Some (- 1, t2)))"
proof -
  let ?e = "e\<lparr>stbi_load := (\<lambda>p. None)\<rparr>"
  let ?g1 = "g\<lparr>gWindowWidth := fst (sdl_window_size e),
                gWindowHeight := snd (sdl_window_size e)\<rparr>"
  from assms have title: "\<not> (title = None \<or> title = Some [])"
    by (auto simp: Application_ctor_def split: if_splits)
  from assms title have ok: "\<not> (sdl_init e < 0 \<or> sdl_create_window e = nullptr \<or>
                sdl_gl_create_context e = nullptr \<or> \<not> glew_ok e)"
    by (auto simp: Application_ctor_def setupSDLWindow_def setupOpenGL_def split: if_splits)
  from assms title ok obtain d1 t1 where
    s: "Setup e ?g1 (demo initial_Application) = Some (Inr d1, g', t1)"
    by (auto simp: Application_ctor_def setupSDLWindow_def setupOpenGL_def Let_def
        split: option.splits sum.splits)
  from Setup_missing_image [OF s] obtain d2 t2 where
    s2: "Setup ?e ?g1 (demo initial_Application) = Some (Inr d2, g', t2)"
    and img: "example_image d2 = (example_image (demo initial_Application))\<lparr>loaded := False\<rparr>"
    by blast
  from title ok s2 obtain app2 t3 where
    c: "Application_ctor ?e title g = Some (Inr app2, g', t3)" and d: "demo app2 = d2"
    by (auto simp: Application_ctor_def setupSDLWindow_def setupOpenGL_def Let_def)
  have l: "\<not> loaded (example_image (demo app2))" using d img by simp
  have h: "handle (example_image (demo app2)) = 0"
    using d img by (simp add: initial_Application_def initial_Demo_def)
  from Application_ctor_trace [OF c] l have a: "Texture \<notin> set (acquired t3)"
    by auto
  from Application_ctor_trace [OF c]
  have p: "ptr_window app2 \<noteq> nullptr" "gl_context app2 \<noteq> nullptr" by simp_all
  from Application_dtor_trace [OF p] l
  have r: "Texture \<notin> set (released (Application_dtor app2))" by auto
  have u: "ImGui_Text ''%s'' [String_arg ''Failed to load texture image...'']
               \<in> set (ImGuiDraw (demo app2) f)"
    using l by (simp add: ImGuiDraw_def)
  from c l h a r u have image: "\<exists>app2 t2.
           Application_ctor ?e title g = Some (Inr app2, g', t2)
           \<and> \<not> loaded (example_image (demo app2))
           \<and> handle (example_image (demo app2)) = 0
           \<and> Texture \<notin> set (acquired t2)
           \<and> Texture \<notin> set (released (Application_dtor app2))
           \<and> ImGui_Text ''%s'' [String_arg ''Failed to load texture image...'']
               \<in> set (ImGuiDraw (demo app2) f)"
    by blast
  from missing_wav_is_fatal [OF assms] obtain p g2 t4 where
    w: "Application_ctor (e\<lparr>sdl_load_wav := (\<lambda>p. None)\<rparr>) title g
          = Some (Inl (Load_WAV_failed p), g2, t4)"
    by blast
  have wav: "\<exists>p g2 t2.
           Application_ctor (e\<lparr>sdl_load_wav := (\<lambda>p. None)\<rparr>) title g
             = Some (Inl (Load_WAV_failed p), g2, t2)
           \<and> (title = Some ''Programming Fun App'' \<and> g = initial_globals \<longrightarrow>
                main (e\<lparr>sdl_load_wav := (\<lambda>p. None)\<rparr>) frames = Some (- 1, t2))"
    using w main_of_failed_ctor [of "e\<lparr>sdl_load_wav := (\<lambda>p. None)\<rparr>" _ g2 t4 frames]
    by blast
  from missing_ogg_is_fatal [OF assms] obtain q g3 t5 where
    o: "Application_ctor (e\<lparr>stb_vorbis_decode_filename := (\<lambda>p. (- 1, 0, 0))\<rparr>) title g
          = Some (Inl (Load_OGG_failed q), g3, t5)"
    by blast
  have ogg: "\<exists>p g2 t2.
           Application_ctor (e\<lparr>stb_vorbis_decode_filename := (\<lambda>p. (- 1, 0, 0))\<rparr>) title g
             = Some (Inl (Load_OGG_failed p), g2, t2)
           \<and> (title = Some ''Programming Fun App'' \<and> g = initial_globals \<longrightarrow>
                main (e\<lparr>stb_vorbis_decode_filename := (\<lambda>p. (- 1, 0, 0))\<rparr>) frames
                  = Some (- 1, t2))"
    using o main_of_failed_ctor
            [of "e\<lparr>stb_vorbis_decode_filename := (\<lambda>p. (- 1, 0, 0))\<rparr>" _ g3 t5 frames]
    by blast
  from image wav ogg show ?thesis by blast
qed


text \<open>C6, an instance: the example world without its image.\<close>

theorem missing_image_is_not_fatal_witness:
  "\<exists>app2 t2.
     Application_ctor (example_env\<lparr>stbi_load := (\<lambda>p. None)\<rparr>)
       (Some ''Programming Fun App'') initial_globals
       = Some (Inr app2, initial_globals\<lparr>gWindowWidth := 640, gWindowHeight := 480,
                 assets_folder := Some (Rooted [''proj'', ''assets''])\<rparr>, t2)
     \<and> \<not> loaded (example_image (demo app2))
     \<and> Texture \<notin> set (acquired t2)
     \<and> Texture \<notin> set (released (Application_dtor app2))
     \<and> ImGui_Text ''%s'' [String_arg ''Failed to load texture image...'']
         \<in> set (ImGuiDraw (demo app2) quit_frame)"
proof -
  have "map_option (\<lambda>r. (isl (fst r), fst (snd r)))
          (Application_ctor example_env (Some ''Programming Fun App'') initial_globals)
        = Some (False, initial_globals\<lparr>gWindowWidth := 640, gWindowHeight := 480,
                 assets_folder := Some (Rooted [''proj'', ''assets''])\<rparr>)"
    by (simp add: eval_defs walk_up.simps)
  then obtain a t where h0:
    "Application_ctor example_env (Some ''Programming Fun App'') initial_globals
       = Some (a, initial_globals\<lparr>gWindowWidth := 640, gWindowHeight := 480,
                 assets_folder := Some (Rooted [''proj'', ''assets''])\<rparr>, t)"
    and "\<not> isl a"
    by auto
  then obtain app where h:
    "Application_ctor example_env (Some ''Programming Fun App'') initial_globals
       = Some (Inr app, initial_globals\<lparr>gWindowWidth := 640, gWindowHeight := 480,
                 assets_folder := Some (Rooted [''proj'', ''assets''])\<rparr>, t)"
    by (cases a) auto
  from missing_image_is_not_fatal [OF h, of quit_frame] show ?thesis by blast
qed

text \<open>
  C6 as written fails for the audio assets: with the OGG file missing the constructor
  throws and the run ends with status \<open>-1\<close>.
\<close>

theorem missing_audio_is_fatal_counterexample:
  "map_option fst (main ogg_missing_env quit_frames) = Some (- 1)
   \<and> map_option (isl \<circ> fst)
       (Application_ctor ogg_missing_env (Some ''Programming Fun App'') initial_globals)
     = Some True"
  by (simp add: eval_defs walk_up.simps)

end
